theory Spec2Isabelle
  imports Complex_Main
begin

section \<open>Numbers, errors and rounding\<close>

text \<open>
  The program computes on IEEE doubles held in pandas columns.  Prices are modelled as
  real numbers; a column cell that pandas holds as NaN is \<open>None\<close>, and a comparison with
  NaN is false, as in numpy.  Exceptions of the Python code are values of \<open>error\<close>.
\<close>

datatype error = IndexError | KeyError | ZeroDivisionError

text \<open>Python's \<open>/\<close> on floats raises on a zero divisor.\<close>

definition py_div :: "real \<Rightarrow> real \<Rightarrow> error + real" where
  "py_div a b = (if b = 0 then Inl ZeroDivisionError else Inr (a / b))"

text \<open>\<open>round(x, n)\<close>: scale, round to the nearest integer with ties to even, scale back.\<close>

definition round_half_even :: "real \<Rightarrow> int" where
  "round_half_even x =
     (let f = \<lfloor>x\<rfloor>; d = x - of_int f
      in if d < 1 / 2 then f
         else if 1 / 2 < d then f + 1
         else if even f then f else f + 1)"

definition py_round :: "real \<Rightarrow> nat \<Rightarrow> real" where
  "py_round x n = of_int (round_half_even (x * 10 ^ n)) / 10 ^ n"

section \<open>Wick classification\<close>

datatype wick_label =
    Doji | Wicks_Both_Sides | Heavy_Upper_Wick | Heavy_Lower_Wick
  | Full_Body | Slight_Upper_Wick | Slight_Lower_Wick | Balanced

text \<open>The returned tuple \<open>(label, upper_pct, lower_pct, body_pct, is_bullish)\<close>.\<close>

type_synonym wick_profile = "wick_label \<times> real \<times> real \<times> real \<times> bool"

definition wick_label_of :: "real \<Rightarrow> real \<Rightarrow> real \<Rightarrow> wick_label" where
  "wick_label_of upper_pct lower_pct body_pct =
     (if body_pct < 10 then Doji
      else if upper_pct > 30 \<and> lower_pct > 30 then Wicks_Both_Sides
      else if upper_pct > lower_pct * 2 \<and> upper_pct > 20 then Heavy_Upper_Wick
      else if lower_pct > upper_pct * 2 \<and> lower_pct > 20 then Heavy_Lower_Wick
      else if body_pct > 75 then Full_Body
      else if upper_pct > lower_pct + 5 then Slight_Upper_Wick
      else if lower_pct > upper_pct + 5 then Slight_Lower_Wick
      else Balanced)"

definition classify_wick_profile :: "real \<Rightarrow> real \<Rightarrow> real \<Rightarrow> real \<Rightarrow> error + wick_profile" where
  "classify_wick_profile open_p close_p high low =
     (let body_top = max open_p close_p;
          body_bot = min open_p close_p;
          total_range = high - low
      in if total_range = 0 then Inr (Doji, 0, 0, 0, close_p \<ge> open_p)
         else
           let upper_wick = high - body_top;
               lower_wick = body_bot - low;
               body = body_top - body_bot
           in case py_div upper_wick total_range of Inl e \<Rightarrow> Inl e | Inr u \<Rightarrow>
              (case py_div lower_wick total_range of Inl e \<Rightarrow> Inl e | Inr l \<Rightarrow>
              (case py_div body total_range of Inl e \<Rightarrow> Inl e | Inr b \<Rightarrow>
                 let upper_pct = u * 100; lower_pct = l * 100; body_pct = b * 100;
                     is_bullish = close_p > open_p
                 in Inr (wick_label_of upper_pct lower_pct body_pct,
                         py_round upper_pct 1, py_round lower_pct 1, py_round body_pct 1,
                         is_bullish))))"

definition wick_bucket :: "wick_label \<Rightarrow> string" where
  "wick_bucket label =
     (if label = Heavy_Upper_Wick \<or> label = Slight_Upper_Wick then ''Upper Wick''
      else if label = Heavy_Lower_Wick \<or> label = Slight_Lower_Wick then ''Lower Wick''
      else if label = Full_Body then ''Full Body''
      else if label = Wicks_Both_Sides then ''Both Wicks''
      else if label = Doji then ''Doji''
      else ''Balanced'')"


section \<open>The bar series and its derived columns\<close>

text \<open>
  One row of the input frame: the index value (a timestamp, in nanoseconds) and the OHLCV
  columns.  The data model takes them finite, so they are reals.
\<close>

record bar =
  timestamp :: int
  Open :: real
  High :: real
  Low :: real
  Close :: real
  Volume :: real

text \<open>A row of the working copy \<open>df.copy()\<close> after the derived columns are added.\<close>

record row = bar +
  Body :: real
  Range :: real
  BodyRatio :: "real option"
  IsBullish :: bool
  TR :: "real option"
  ATR :: "real option"

text \<open>\<open>df.iloc[i]\<close> for a non-negative position.\<close>

definition iloc :: "'a list \<Rightarrow> nat \<Rightarrow> error + 'a" where
  "iloc xs i = (if i < length xs then Inr (xs ! i) else Inl IndexError)"

text \<open>
  The true range.  \<open>Close.shift(1)\<close> is NaN at position 0, \<open>abs\<close> and \<open>np.maximum\<close>
  propagate NaN, so the first cell is NaN.
\<close>

definition col_TR :: "bar list \<Rightarrow> real option list" where
  "col_TR df =
     map (\<lambda>i. if i = 0 then None
              else Some (max (High (df ! i) - Low (df ! i))
                             (max \<bar>High (df ! i) - Close (df ! (i - 1))\<bar>
                                  \<bar>Low (df ! i) - Close (df ! (i - 1))\<bar>)))
         [0..<length df]"

text \<open>
  \<open>rolling(w).mean()\<close>: \<open>min_periods\<close> defaults to the window size, and a NaN in the window
  is not an observation, so a cell is defined only when the window is full of numbers.
\<close>

definition rolling_mean :: "nat \<Rightarrow> real option list \<Rightarrow> real option list" where
  "rolling_mean w xs =
     map (\<lambda>i. if i + 1 < w then None
              else (case those (take w (drop (i + 1 - w) xs)) of
                      None \<Rightarrow> None
                    | Some vs \<Rightarrow> Some (sum_list vs / real w)))
         [0..<length xs]"

definition col_ATR :: "bar list \<Rightarrow> real option list" where
  "col_ATR df = rolling_mean 14 (col_TR df)"

text \<open>\<open>Range.replace(0, np.nan)\<close> makes the ratio NaN on a zero-range bar.\<close>

definition body_ratio :: "real \<Rightarrow> real \<Rightarrow> real option" where
  "body_ratio body rng = (if rng = 0 then None else Some (body / rng))"

text \<open>The working copy: every row of the frame with its cells of the new columns.\<close>

definition add_columns :: "bar list \<Rightarrow> row list" where
  "add_columns df =
     map (\<lambda>(b, tr, atr).
            \<lparr> timestamp = timestamp b, Open = Open b, High = High b, Low = Low b,
              Close = Close b, Volume = Volume b,
              Body = \<bar>Close b - Open b\<bar>,
              Range = High b - Low b,
              BodyRatio = body_ratio \<bar>Close b - Open b\<bar> (High b - Low b),
              IsBullish = (Close b > Open b),
              TR = tr,
              ATR = atr \<rparr>)
         (zip df (zip (col_TR df) (col_ATR df)))"

text \<open>Comparisons of a possibly-NaN cell with a number: false on NaN.\<close>

definition nan_lt :: "real option \<Rightarrow> real \<Rightarrow> bool" where
  "nan_lt x y = (case x of None \<Rightarrow> False | Some v \<Rightarrow> v < y)"

definition nan_ge :: "real option \<Rightarrow> real \<Rightarrow> bool" where
  "nan_ge x y = (case x of None \<Rightarrow> False | Some v \<Rightarrow> v \<ge> y)"

text \<open>A loop that appends or continues; the first exception ends it.\<close>

fun collect :: "(error + 'a option) list \<Rightarrow> error + 'a list" where
  "collect [] = Inr []"
| "collect (x # xs) =
     (case x of Inl e \<Rightarrow> Inl e
      | Inr v \<Rightarrow> (case collect xs of Inl e \<Rightarrow> Inl e
                 | Inr vs \<Rightarrow> Inr (case v of None \<Rightarrow> vs | Some a \<Rightarrow> a # vs)))"

section \<open>Zones\<close>

record zone =
  zone_datetime :: int
  zone_top :: real
  zone_bottom :: real
  zone_type :: string
  strength :: real
  origin_body :: real
  origin_range :: real

text \<open>
  The body of the loop of \<open>detect_zones\<close> at position \<open>i\<close>: \<open>None\<close> is \<open>continue\<close>.
  (\<open>detect_zones\<close> adds only the Body, TR, ATR and IsBullish columns; the two further
  columns of \<open>add_columns\<close> are not read here.)
\<close>

definition zone_at :: "row list \<Rightarrow> real \<Rightarrow> nat \<Rightarrow> error + zone option" where
  "zone_at df zone_atr_min i =
     (case iloc df i of Inl e \<Rightarrow> Inl e | Inr r \<Rightarrow>
        (case ATR r of None \<Rightarrow> Inr None
         | Some a \<Rightarrow>
             if a = 0 \<or> Body r < a * zone_atr_min then Inr None
             else
               let strength = Body r / a in
               if IsBullish r then
                 Inr (Some \<lparr> zone_datetime = timestamp r, zone_top = Open r, zone_bottom = Low r,
                             zone_type = ''demand'', strength = py_round strength 2,
                             origin_body = Body r, origin_range = High r - Low r \<rparr>)
               else
                 Inr (Some \<lparr> zone_datetime = timestamp r, zone_top = High r, zone_bottom = Open r,
                             zone_type = ''supply'', strength = py_round strength 2,
                             origin_body = Body r, origin_range = High r - Low r \<rparr>)))"

definition detect_zones :: "bar list \<Rightarrow> real \<Rightarrow> error + zone list" where
  "detect_zones df zone_atr_min =
     collect (map (zone_at (add_columns df) zone_atr_min) [20..<length df])"

section \<open>Zone matching\<close>

record zone_result =
  zone :: string
  zone_dist_pct :: "real option"
  zone_strength :: "real option"
  nearest_zone_type :: "string option"
  nearest_zone_top :: "real option"
  nearest_zone_bottom :: "real option"
  zone_proximity_band :: string

definition no_zone_result :: zone_result where
  "no_zone_result =
     \<lparr> zone = ''neutral'', zone_dist_pct = None, zone_strength = None,
       nearest_zone_type = None, nearest_zone_top = None, nearest_zone_bottom = None,
       zone_proximity_band = ''No Zone'' \<rparr>"

text \<open>\<open>pd.Timedelta(hours=h)\<close> in nanoseconds.\<close>

definition Timedelta_hours :: "int \<Rightarrow> int" where
  "Timedelta_hours h = h * 3600000000000"

text \<open>The rows kept by \<open>zones_df[(datetime >= cutoff) & (datetime < dt)]\<close>.\<close>

definition recent_zones :: "int \<Rightarrow> zone list \<Rightarrow> int \<Rightarrow> zone list" where
  "recent_zones dt zones_df lookback_hours =
     (let cutoff = dt - Timedelta_hours lookback_hours
      in filter (\<lambda>z. zone_datetime z \<ge> cutoff \<and> zone_datetime z < dt) zones_df)"

text \<open>
  The distance of one zone, a fraction of the price.  The rows reach this function as
  Python numbers, whose division raises on a zero price.
\<close>

definition zone_dist :: "real \<Rightarrow> zone \<Rightarrow> error + real" where
  "zone_dist price z =
     (if zone_bottom z \<le> price \<and> price \<le> zone_top z then Inr 0
      else
        case py_div \<bar>price - zone_top z\<bar> price of Inl e \<Rightarrow> Inl e | Inr dist_top \<Rightarrow>
        (case py_div \<bar>price - zone_bottom z\<bar> price of Inl e \<Rightarrow> Inl e | Inr dist_bot \<Rightarrow>
           Inr (min dist_top dist_bot)))"

text \<open>
  The state of the loop over the recent zones: the two flags, the least distance so far
  (\<open>None\<close> is the initial \<open>float('inf')\<close>) and the zone that gave it.
\<close>

record zone_scan =
  near_s :: bool
  near_d :: bool
  min_dist_pct :: "real option"
  nearest :: "zone option"

definition zone_scan_init :: zone_scan where
  "zone_scan_init = \<lparr> near_s = False, near_d = False, min_dist_pct = None, nearest = None \<rparr>"

definition zone_scan_step :: "real \<Rightarrow> real \<Rightarrow> zone \<Rightarrow> zone_scan \<Rightarrow> error + zone_scan" where
  "zone_scan_step price proximity_pct z st =
     (case zone_dist price z of Inl e \<Rightarrow> Inl e | Inr dist_pct \<Rightarrow>
        let st1 = (if (case min_dist_pct st of None \<Rightarrow> True | Some m \<Rightarrow> dist_pct < m)
                   then st\<lparr> min_dist_pct := Some dist_pct, nearest := Some z \<rparr> else st);
            st2 = (if dist_pct \<le> proximity_pct
                   then (if zone_type z = ''supply'' then st1\<lparr> near_s := True \<rparr>
                         else st1\<lparr> near_d := True \<rparr>)
                   else st1)
        in Inr st2)"

fun zone_scan_loop :: "real \<Rightarrow> real \<Rightarrow> zone list \<Rightarrow> zone_scan \<Rightarrow> error + zone_scan" where
  "zone_scan_loop price proximity_pct [] st = Inr st"
| "zone_scan_loop price proximity_pct (z # zs) st =
     (case zone_scan_step price proximity_pct z st of Inl e \<Rightarrow> Inl e
      | Inr st' \<Rightarrow> zone_scan_loop price proximity_pct zs st')"

definition zone_label :: "bool \<Rightarrow> bool \<Rightarrow> string" where
  "zone_label ns nd =
     (if ns \<and> nd then ''contested''
      else if ns then ''supply''
      else if nd then ''demand''
      else ''neutral'')"

definition prox_band :: "real option \<Rightarrow> string" where
  "prox_band md =
     (case md of None \<Rightarrow> ''Far (>1%)''
      | Some m \<Rightarrow>
          if m = 0 then ''Inside Zone''
          else if m \<le> 1 / 1000 then ''Touching''
          else if m \<le> 3 / 1000 then ''Very Close (0.1-0.3%)''
          else if m \<le> 6 / 1000 then ''Near (0.3-0.6%)''
          else if m \<le> 1 / 100 then ''Moderate (0.6-1%)''
          else ''Far (>1%)'')"

definition classify_zone :: "int \<Rightarrow> real \<Rightarrow> zone list \<Rightarrow> int \<Rightarrow> real \<Rightarrow> error + zone_result" where
  "classify_zone dt price zones_df lookback_hours proximity_pct =
     (if zones_df = [] then Inr no_zone_result
      else
        let recent = recent_zones dt zones_df lookback_hours in
        if recent = [] then Inr no_zone_result
        else
          case zone_scan_loop price proximity_pct recent zone_scan_init of Inl e \<Rightarrow> Inl e
          | Inr st \<Rightarrow>
              Inr \<lparr> zone = zone_label (near_s st) (near_d st),
                    zone_dist_pct = map_option (\<lambda>m. py_round (m * 100) 3) (min_dist_pct st),
                    zone_strength = map_option strength (nearest st),
                    nearest_zone_type = map_option zone_type (nearest st),
                    nearest_zone_top = map_option zone_top (nearest st),
                    nearest_zone_bottom = map_option zone_bottom (nearest st),
                    zone_proximity_band = prox_band (min_dist_pct st) \<rparr>)"

section \<open>Pattern detection\<close>

datatype direction = LONG | SHORT

text \<open>The value of \<open>first_hit\<close>: \<open>None\<close>, \<open>'SL'\<close> or \<open>'1R'\<close>.\<close>

datatype hit = SL | R1

text \<open>
  The dictionary returned by \<open>candle_result\<close> for a candle that exists.  For a missing
  candle the function returns a dictionary of \<open>None\<close>s that has no \<open>'mfe_r'\<close> and no
  \<open>'mae_r'\<close> key: that is \<open>None\<close> here, and reading those keys from it is a KeyError.
\<close>

record candle_res =
  close_r :: real
  mfe_r :: real
  mae_r :: real
  followed :: bool

definition candle_result :: "row option \<Rightarrow> real \<Rightarrow> real \<Rightarrow> direction \<Rightarrow> candle_res option" where
  "candle_result candle entry_px risk_px d =
     (case candle of None \<Rightarrow> None
      | Some c \<Rightarrow>
          if d = LONG then
            (let cr = (Close c - entry_px) / risk_px;
                 high_r = (High c - entry_px) / risk_px;
                 low_r = (entry_px - Low c) / risk_px;
                 fl = (Close c > entry_px)
             in Some \<lparr> close_r = py_round cr 3, mfe_r = py_round (max 0 high_r) 3,
                       mae_r = py_round (max 0 low_r) 3, followed = fl \<rparr>)
          else
            (let cr = (entry_px - Close c) / risk_px;
                 high_r = (entry_px - Low c) / risk_px;
                 low_r = (High c - entry_px) / risk_px;
                 fl = (Close c < entry_px)
             in Some \<lparr> close_r = py_round cr 3, mfe_r = py_round (max 0 high_r) 3,
                       mae_r = py_round (max 0 low_r) 3, followed = fl \<rparr>))"

definition res_fields :: "candle_res option \<Rightarrow> error + candle_res" where
  "res_fields r = (case r of None \<Rightarrow> Inl KeyError | Some v \<Rightarrow> Inr v)"

text \<open>The variables of the outcome loop.\<close>

record sim_state =
  hit_1r :: bool
  hit_15r :: bool
  hit_2r :: bool
  hit_sl :: bool
  first_hit :: "hit option"
  mfe :: real
  mae :: real

definition sim_init :: sim_state where
  "sim_init = \<lparr> hit_1r = False, hit_15r = False, hit_2r = False, hit_sl = False,
                first_hit = None, mfe = 0, mae = 0 \<rparr>"

text \<open>The two touch tests of one candle, per direction, as the loop writes them.\<close>

definition touches_sl :: "direction \<Rightarrow> real \<Rightarrow> row \<Rightarrow> bool" where
  "touches_sl d sl c = (if d = LONG then Low c \<le> sl else High c \<ge> sl)"

definition touches_1r :: "direction \<Rightarrow> real \<Rightarrow> real \<Rightarrow> row \<Rightarrow> bool" where
  "touches_1r d entry risk c =
     (if d = LONG then High c \<ge> entry + risk else Low c \<le> entry - risk)"

text \<open>One pass of the loop body on candle \<open>c\<close>: the stop-loss test is run before the 1R test.\<close>

definition sim_step :: "direction \<Rightarrow> real \<Rightarrow> real \<Rightarrow> real \<Rightarrow> row \<Rightarrow> sim_state \<Rightarrow> sim_state" where
  "sim_step d entry sl risk c s =
     (let fav = (if d = LONG then (High c - entry) / risk else (entry - Low c) / risk);
          adv = (if d = LONG then (entry - Low c) / risk else (High c - entry) / risk);
          s1 = s\<lparr> mfe := max (mfe s) fav, mae := max (mae s) adv \<rparr>;
          s2 = (if touches_sl d sl c \<and> \<not> hit_sl s1
                then s1\<lparr> hit_sl := True,
                         first_hit := (if first_hit s1 = None then Some SL else first_hit s1) \<rparr>
                else s1);
          s3 = (if touches_1r d entry risk c \<and> \<not> hit_1r s2
                then s2\<lparr> hit_1r := True,
                         first_hit := (if first_hit s2 = None then Some R1 else first_hit s2) \<rparr>
                else s2);
          s4 = (if (if d = LONG then High c \<ge> entry + 1.5 * risk else Low c \<le> entry - 1.5 * risk)
                then s3\<lparr> hit_15r := True \<rparr> else s3);
          s5 = (if (if d = LONG then High c \<ge> entry + 2 * risk else Low c \<le> entry - 2 * risk)
                then s4\<lparr> hit_2r := True \<rparr> else s4)
      in s5)"

text \<open>\<open>for j in range(...): c = df.iloc[j]; ...\<close>\<close>

fun sim_loop :: "row list \<Rightarrow> direction \<Rightarrow> real \<Rightarrow> real \<Rightarrow> real \<Rightarrow> nat list \<Rightarrow> sim_state
                 \<Rightarrow> error + sim_state" where
  "sim_loop df d entry sl risk [] s = Inr s"
| "sim_loop df d entry sl risk (j # js) s =
     (case iloc df j of Inl e \<Rightarrow> Inl e
      | Inr c \<Rightarrow> sim_loop df d entry sl risk js (sim_step d entry sl risk c s))"

definition win_label :: "sim_state \<Rightarrow> candle_res option \<Rightarrow> bool" where
  "win_label s c4_res =
     (if first_hit s = Some R1 then hit_1r s
      else if first_hit s = Some SL then False
      else (case c4_res of None \<Rightarrow> False | Some r \<Rightarrow> close_r r > 0))"

text \<open>
  The record appended for an accepted anchor.  \<open>c4_res\<close>, \<open>c5_res\<close>, \<open>c6_res\<close> hold the entries
  \<open>c4_close_r\<close>, \<open>c4_mfe_r\<close>, \<open>c4_mae_r\<close>, \<open>c4_followed\<close> (and so on); \<open>outcome\<close> holds
  \<open>hit_1r\<close>, \<open>hit_15r\<close>, \<open>hit_2r\<close>, \<open>hit_sl\<close>, \<open>first_hit\<close>, \<open>max_favorable_r\<close> and
  \<open>max_adverse_r\<close>.  The display entries derived from these (breakout margins, risk percent,
  raw C4 to C6 prices, colours, scenario key) are left out.
\<close>

record Setup =
  datetime :: int
  c1_open :: real
  c1_close :: real
  c1_high :: real
  c1_low :: real
  c1_body :: real
  c1_range :: real
  c1_body_ratio :: "real option"
  c1_bullish :: bool
  c1_atr :: "real option"
  c1_wick_label :: wick_label
  c1_upper_wick_pct :: real
  c1_lower_wick_pct :: real
  c1_body_pct :: real
  c1_wick_bucket :: string
  c2_open :: real
  c2_close :: real
  c2_high :: real
  c2_low :: real
  c2_bullish :: bool
  c2_wick_label :: wick_label
  c2_upper_wick_pct :: real
  c2_lower_wick_pct :: real
  c2_body_pct :: real
  c2_wick_bucket :: string
  c3_open :: real
  c3_close :: real
  c3_high :: real
  c3_low :: real
  c3_bullish :: bool
  direction :: direction
  entry_price :: real
  stop_loss :: real
  risk :: real
  c4_res :: candle_res
  c5_res :: candle_res
  c6_res :: candle_res
  follow_count :: nat
  outcome :: sim_state
  win_1r :: bool
  c1_direction_match :: bool

text \<open>
  The gates of the loop body, from the ATR test to the risk test: \<open>None\<close> is \<open>continue\<close>,
  otherwise the direction, the entry, the stop and the risk.
\<close>

definition gates :: "real \<Rightarrow> real \<Rightarrow> row \<Rightarrow> row \<Rightarrow> row \<Rightarrow> (direction \<times> real \<times> real \<times> real) option" where
  "gates body_ratio_thresh atr_mult c1 c2 c3 =
     (case ATR c1 of None \<Rightarrow> None
      | Some a \<Rightarrow>
          if a = 0 then None
          else if nan_lt (BodyRatio c1) body_ratio_thresh then None
          else if Body c1 < a * atr_mult then None
          else if \<not> (High c2 \<le> High c1 \<and> Low c2 \<ge> Low c1) then None
          else if Close c3 > High c2 then
            (let entry = Close c3; sl = Low c2; risk = entry - sl
             in if risk \<le> 0 then None else Some (LONG, entry, sl, risk))
          else if Close c3 < Low c2 then
            (let entry = Close c3; sl = High c2; risk = sl - entry
             in if risk \<le> 0 then None else Some (SHORT, entry, sl, risk))
          else None)"

text \<open>The rest of the loop body, for an anchor that passed the gates.\<close>

definition build_setup :: "row list \<Rightarrow> nat \<Rightarrow> row \<Rightarrow> row \<Rightarrow> row \<Rightarrow> row \<Rightarrow> row option \<Rightarrow> row option
      \<Rightarrow> direction \<Rightarrow> real \<Rightarrow> real \<Rightarrow> real \<Rightarrow> error + Setup" where
  "build_setup df i c1 c2 c3 c4 c5 c6 d entry sl rsk =
     (case classify_wick_profile (Open c1) (Close c1) (High c1) (Low c1) of Inl e \<Rightarrow> Inl e
      | Inr (c1_wl, c1_up, c1_lp, c1_bp, c1_bull) \<Rightarrow>
     (case classify_wick_profile (Open c2) (Close c2) (High c2) (Low c2) of Inl e \<Rightarrow> Inl e
      | Inr (c2_wl, c2_up, c2_lp, c2_bp, c2_bull) \<Rightarrow>
        let r4 = candle_result (Some c4) entry rsk d;
            r5 = candle_result c5 entry rsk d;
            r6 = candle_result c6 entry rsk d
        in
     (case sim_loop df d entry sl rsk [i + 3..<min (i + 23) (length df)] sim_init of Inl e \<Rightarrow> Inl e
      | Inr s \<Rightarrow>
     (case res_fields r4 of Inl e \<Rightarrow> Inl e | Inr f4 \<Rightarrow>
     (case res_fields r5 of Inl e \<Rightarrow> Inl e | Inr f5 \<Rightarrow>
     (case res_fields r6 of Inl e \<Rightarrow> Inl e | Inr f6 \<Rightarrow>
        Inr \<lparr> datetime = timestamp c1,
              c1_open = Open c1, c1_close = Close c1, c1_high = High c1, c1_low = Low c1,
              c1_body = Body c1, c1_range = Range c1, c1_body_ratio = BodyRatio c1,
              c1_bullish = c1_bull, c1_atr = ATR c1,
              c1_wick_label = c1_wl, c1_upper_wick_pct = c1_up, c1_lower_wick_pct = c1_lp,
              c1_body_pct = c1_bp, c1_wick_bucket = wick_bucket c1_wl,
              c2_open = Open c2, c2_close = Close c2, c2_high = High c2, c2_low = Low c2,
              c2_bullish = c2_bull,
              c2_wick_label = c2_wl, c2_upper_wick_pct = c2_up, c2_lower_wick_pct = c2_lp,
              c2_body_pct = c2_bp, c2_wick_bucket = wick_bucket c2_wl,
              c3_open = Open c3, c3_close = Close c3, c3_high = High c3, c3_low = Low c3,
              c3_bullish = (Close c3 > Open c3),
              direction = d, entry_price = entry, stop_loss = sl, risk = rsk,
              c4_res = f4, c5_res = f5, c6_res = f6,
              follow_count =
                length (filter (\<lambda>r. case r of None \<Rightarrow> False | Some v \<Rightarrow> followed v) [r4, r5, r6]),
              outcome = s,
              win_1r = win_label s r4,
              c1_direction_match = (c1_bull = (d = LONG)) \<rparr>))))))"

text \<open>The loop body of \<open>detect_setups\<close> at anchor \<open>i\<close>.\<close>

definition setup_at :: "row list \<Rightarrow> real \<Rightarrow> real \<Rightarrow> nat \<Rightarrow> error + Setup option" where
  "setup_at df body_ratio_thresh atr_mult i =
     (case iloc df i of Inl e \<Rightarrow> Inl e | Inr c1 \<Rightarrow>
     (case iloc df (i + 1) of Inl e \<Rightarrow> Inl e | Inr c2 \<Rightarrow>
     (case iloc df (i + 2) of Inl e \<Rightarrow> Inl e | Inr c3 \<Rightarrow>
     (case iloc df (i + 3) of Inl e \<Rightarrow> Inl e | Inr c4 \<Rightarrow>
        let c5 = (if i + 4 < length df then Some (df ! (i + 4)) else None);
            c6 = (if i + 5 < length df then Some (df ! (i + 5)) else None)
        in (case gates body_ratio_thresh atr_mult c1 c2 c3 of
              None \<Rightarrow> Inr None
            | Some (d, entry, sl, rsk) \<Rightarrow>
                (case build_setup df i c1 c2 c3 c4 c5 c6 d entry sl rsk of
                   Inl e \<Rightarrow> Inl e | Inr s \<Rightarrow> Inr (Some s)))))))"

definition detect_setups :: "bar list \<Rightarrow> real \<Rightarrow> real \<Rightarrow> error + Setup list" where
  "detect_setups df body_ratio_thresh atr_mult =
     (if length df < 20 then Inr []
      else collect (map (setup_at (add_columns df) body_ratio_thresh atr_mult)
                        [14..<length df - 6]))"

section \<open>The diagnostic funnel\<close>

record diag =
  total_scanned :: nat
  pass_body_ratio :: nat
  pass_body_atr :: nat
  pass_both_c1 :: nat
  pass_inside_bar :: nat
  pass_c3_breakout :: nat
  pass_valid_risk :: nat

definition diag_init :: diag where
  "diag_init = \<lparr> total_scanned = 0, pass_body_ratio = 0, pass_body_atr = 0, pass_both_c1 = 0,
                 pass_inside_bar = 0, pass_c3_breakout = 0, pass_valid_risk = 0 \<rparr>"

text \<open>The loop body of the diagnostic pass at anchor \<open>i\<close>.\<close>

definition diag_step :: "row list \<Rightarrow> real \<Rightarrow> real \<Rightarrow> nat \<Rightarrow> diag \<Rightarrow> error + diag" where
  "diag_step df body_ratio_thresh atr_mult i dg =
     (case iloc df i of Inl e \<Rightarrow> Inl e | Inr c1 \<Rightarrow>
       (case ATR c1 of None \<Rightarrow> Inr dg
        | Some a \<Rightarrow>
          if a = 0 then Inr dg
          else
            let d1 = dg\<lparr> total_scanned := total_scanned dg + 1 \<rparr>;
                br_pass = nan_ge (BodyRatio c1) body_ratio_thresh;
                atr_pass = (Body c1 \<ge> a * atr_mult);
                d2 = (if br_pass then d1\<lparr> pass_body_ratio := pass_body_ratio d1 + 1 \<rparr> else d1);
                d3 = (if atr_pass then d2\<lparr> pass_body_atr := pass_body_atr d2 + 1 \<rparr> else d2)
            in if \<not> (br_pass \<and> atr_pass) then Inr d3
               else
                 let d4 = d3\<lparr> pass_both_c1 := pass_both_c1 d3 + 1 \<rparr> in
                 (case iloc df (i + 1) of Inl e \<Rightarrow> Inl e | Inr c2 \<Rightarrow>
                    if \<not> (High c2 \<le> High c1 \<and> Low c2 \<ge> Low c1) then Inr d4
                    else
                      let d5 = d4\<lparr> pass_inside_bar := pass_inside_bar d4 + 1 \<rparr> in
                      (case iloc df (i + 2) of Inl e \<Rightarrow> Inl e | Inr c3 \<Rightarrow>
                         if Close c3 > High c2 then
                           (let d6 = d5\<lparr> pass_c3_breakout := pass_c3_breakout d5 + 1 \<rparr>;
                                entry = Close c3; sl = Low c2; risk = entry - sl
                            in if risk > 0
                               then Inr (d6\<lparr> pass_valid_risk := pass_valid_risk d6 + 1 \<rparr>)
                               else Inr d6)
                         else if Close c3 < Low c2 then
                           (let d6 = d5\<lparr> pass_c3_breakout := pass_c3_breakout d5 + 1 \<rparr>;
                                entry = Close c3; sl = High c2; risk = sl - entry
                            in if risk > 0
                               then Inr (d6\<lparr> pass_valid_risk := pass_valid_risk d6 + 1 \<rparr>)
                               else Inr d6)
                         else Inr d5))))"

fun diag_loop :: "row list \<Rightarrow> real \<Rightarrow> real \<Rightarrow> nat list \<Rightarrow> diag \<Rightarrow> error + diag" where
  "diag_loop df body_ratio_thresh atr_mult [] dg = Inr dg"
| "diag_loop df body_ratio_thresh atr_mult (i # js) dg =
     (case diag_step df body_ratio_thresh atr_mult i dg of Inl e \<Rightarrow> Inl e
      | Inr dg' \<Rightarrow> diag_loop df body_ratio_thresh atr_mult js dg')"

definition detect_setups_with_diagnostics :: "bar list \<Rightarrow> real \<Rightarrow> real \<Rightarrow> error + (Setup list \<times> diag)" where
  "detect_setups_with_diagnostics df body_ratio_thresh atr_mult =
     (if length df < 20 then Inr ([], diag_init)
      else
        case diag_loop (add_columns df) body_ratio_thresh atr_mult [14..<length df - 6] diag_init of
          Inl e \<Rightarrow> Inl e
        | Inr dg \<Rightarrow>
            (case detect_setups df body_ratio_thresh atr_mult of
               Inl e \<Rightarrow> Inl e | Inr setups \<Rightarrow> Inr (setups, dg)))"

section \<open>Enrichment\<close>

text \<open>
  The zone columns of \<open>enrich_setups\<close>: each setup is classified at its own timestamp and
  entry price, with the proximity argument divided by 100.  The session, news, calendar and
  P and L columns do not read the zone parameters and are not modelled.
\<close>

fun classify_all :: "zone list \<Rightarrow> int \<Rightarrow> real \<Rightarrow> Setup list \<Rightarrow> error + (Setup \<times> zone_result) list" where
  "classify_all zones_df zone_lookback proximity_pct [] = Inr []"
| "classify_all zones_df zone_lookback proximity_pct (r # rs) =
     (case classify_zone (datetime r) (entry_price r) zones_df zone_lookback proximity_pct of
        Inl e \<Rightarrow> Inl e
      | Inr zi \<Rightarrow>
          (case classify_all zones_df zone_lookback proximity_pct rs of
             Inl e \<Rightarrow> Inl e | Inr zs \<Rightarrow> Inr ((r, zi) # zs)))"

definition enrich_setups :: "Setup list \<Rightarrow> zone list \<Rightarrow> int \<Rightarrow> real \<Rightarrow> error + (Setup \<times> zone_result) list" where
  "enrich_setups sdf zones_df zone_lookback zone_proximity =
     (if sdf = [] then Inr []
      else classify_all zones_df zone_lookback (zone_proximity / 100) sdf)"

section \<open>Example series\<close>

text \<open>
  Concrete hourly series used to run the definitions.  Every one opens with fourteen
  quiet bars (open, low and close 100, high 101), so the ATR is defined from bar 14 on.
\<close>

definition mk_bar :: "nat \<Rightarrow> real \<Rightarrow> real \<Rightarrow> real \<Rightarrow> real \<Rightarrow> bar" where
  "mk_bar t op hi lo cl =
     \<lparr> timestamp = Timedelta_hours (int t), Open = op, High = hi, Low = lo, Close = cl,
       Volume = 0 \<rparr>"

definition quiet_bars :: "bar list" where
  "quiet_bars = map (\<lambda>t. mk_bar t 100 101 100 100) [0..<14]"

definition flat_bars :: "nat \<Rightarrow> nat \<Rightarrow> real \<Rightarrow> bar list" where
  "flat_bars t n p = map (\<lambda>k. mk_bar k p p p p) [t..<t + n]"

text \<open>Nineteen bars: one short of the minimum length.\<close>

definition ex_too_short :: "bar list" where
  "ex_too_short = quiet_bars @ flat_bars 14 5 100"

text \<open>
  A full-bodied bar 14, an inside bar 15, bar 16 closing above it (entry 110, stop 107,
  risk 3), and bar 17 reaching 113 without touching the stop.
\<close>

definition ex_long :: "bar list" where
  "ex_long = quiet_bars @
     [mk_bar 14 100 110 100 110, mk_bar 15 108 109 107 108, mk_bar 16 108 111 108 110,
      mk_bar 17 110 114 110 113] @ flat_bars 18 3 113"

text \<open>The same pattern, but bar 17 spans both the stop (107) and the 1R level (113).\<close>

definition ex_tie :: "bar list" where
  "ex_tie = quiet_bars @
     [mk_bar 14 100 110 100 110, mk_bar 15 108 109 107 108, mk_bar 16 108 111 108 110,
      mk_bar 17 110 114 106 110] @ flat_bars 18 3 110"

text \<open>
  The same pattern, but the four bars after the breakout sit at 110.001: neither level is
  touched and C4 closes above the entry by a third of a thousandth of the risk.
\<close>

definition ex_drift :: "bar list" where
  "ex_drift = quiet_bars @
     [mk_bar 14 100 110 100 110, mk_bar 15 108 109 107 108, mk_bar 16 108 111 108 110]
     @ flat_bars 17 4 (110001 / 1000)"

text \<open>The same pattern, but bar 16 closes exactly at the high of bar 15.\<close>

definition ex_boundary :: "bar list" where
  "ex_boundary = quiet_bars @
     [mk_bar 14 100 110 100 110, mk_bar 15 108 109 107 108, mk_bar 16 108 111 108 109]
     @ flat_bars 17 4 109"

text \<open>Bar 14 has a long upper wick: its body is 4 of a range of 10, and 4 exceeds 1.3 ATR.\<close>

definition ex_wick :: "bar list" where
  "ex_wick = quiet_bars @ [mk_bar 14 100 110 100 104] @ flat_bars 15 6 104"

text \<open>Bars 14 and 15 are flat at 100 (zero range), bar 16 closes at 102.\<close>

definition ex_flat :: "bar list" where
  "ex_flat = quiet_bars @ flat_bars 14 2 100 @ [mk_bar 16 100 102 100 102] @ flat_bars 17 4 102"

text \<open>
  Twenty quiet bars, then a bar whose body 1.56 is exactly 1.5 times its ATR
  \<open>(13 + 1.56) / 14 = 1.04\<close>.
\<close>

definition ex_zone :: "bar list" where
  "ex_zone = map (\<lambda>t. mk_bar t 100 101 100 100) [0..<20] @ [mk_bar 20 100 (10156 / 100) 100 (10156 / 100)]"

text \<open>
  The mirror pattern: a full-bodied falling bar 14, an inside bar 15, and bar 16 closing at
  100, below the low 101 of bar 15 (entry 100, stop 103, risk 3).
\<close>

definition ex_down :: "bar list" where
  "ex_down = quiet_bars @
     [mk_bar 14 110 110 100 100, mk_bar 15 102 103 101 102, mk_bar 16 102 102 99 100]
     @ flat_bars 17 4 100"

text \<open>Twenty-seven bars that never move: from bar 14 on the ATR is defined and zero.\<close>

definition ex_still :: "bar list" where
  "ex_still = flat_bars 0 27 100"

text \<open>The zone that \<open>detect_zones\<close> emits for bar 20 of \<open>ex_zone\<close>.\<close>

definition ex_zone_zone :: zone where
  "ex_zone_zone =
     \<lparr> zone_datetime = 72000000000000, zone_top = 100, zone_bottom = 100,
       zone_type = ''demand'', strength = 3 / 2, origin_body = 39 / 25, origin_range = 39 / 25 \<rparr>"

section \<open>Wick classification: results\<close>

lemma classify_wick_profile_total:
  "\<exists>r. classify_wick_profile open_p close_p high low = Inr r"
  by (simp add: classify_wick_profile_def py_div_def Let_def)

text \<open>
  C9.  A bar with high equal to low is classified Doji with upper-wick, lower-wick and body
  percentages all zero, and on every input the function returns a profile: no
  division-by-zero fault (nor any other error) is raised.
\<close>

theorem C9_zero_range_doji_and_no_fault:
  "classify_wick_profile open_p close_p high high = Inr (Doji, 0, 0, 0, close_p \<ge> open_p)
   \<and> classify_wick_profile open_p close_p high' low' \<noteq> Inl e"
  by (simp add: classify_wick_profile_def py_div_def Let_def)

section \<open>The ATR column\<close>

lemma those_None_iff: "those xs = None \<longleftrightarrow> None \<in> set xs"
  by (induction xs) (auto split: option.splits)

lemma those_Some_map: "those xs = Some vs \<Longrightarrow> xs = map Some vs"
  by (induction xs arbitrary: vs) (auto split: option.splits)

lemma length_col_TR: "length (col_TR df) = length df"
  by (simp add: col_TR_def)

lemma nth_col_TR:
  "i < length df \<Longrightarrow> col_TR df ! i =
     (if i = 0 then None
      else Some (max (High (df ! i) - Low (df ! i))
                     (max \<bar>High (df ! i) - Close (df ! (i - 1))\<bar>
                          \<bar>Low (df ! i) - Close (df ! (i - 1))\<bar>)))"
  by (simp add: col_TR_def)

lemma length_col_ATR: "length (col_ATR df) = length df"
  by (simp add: col_ATR_def rolling_mean_def length_col_TR)

lemma nth_col_ATR:
  "i < length df \<Longrightarrow> col_ATR df ! i =
     (if i + 1 < 14 then None
      else (case those (take 14 (drop (i + 1 - 14) (col_TR df))) of
              None \<Rightarrow> None | Some vs \<Rightarrow> Some (sum_list vs / 14)))"
  by (simp add: col_ATR_def rolling_mean_def length_col_TR cong: option.case_cong)

lemma col_TR_None_iff: "i < length df \<Longrightarrow> col_TR df ! i = None \<longleftrightarrow> i = 0"
  by (simp add: nth_col_TR)

lemma window_has_None:
  assumes "i < length df" "13 \<le> i"
  shows "None \<in> set (take 14 (drop (i - 13) (col_TR df))) \<longleftrightarrow> i = 13"
proof
  assume "None \<in> set (take 14 (drop (i - 13) (col_TR df)))"
  then obtain k where k: "k < length (take 14 (drop (i - 13) (col_TR df)))"
      "take 14 (drop (i - 13) (col_TR df)) ! k = None"
    by (metis in_set_conv_nth)
  then have "k < 14" "i - 13 + k < length df" using assms by (auto simp: length_col_TR)
  with k have "col_TR df ! (i - 13 + k) = None" by (simp add: length_col_TR)
  then have "i - 13 + k = 0" using \<open>i - 13 + k < length df\<close> by (simp add: col_TR_None_iff)
  then show "i = 13" using assms by simp
next
  assume "i = 13"
  moreover have "0 < length df" using assms by (cases df) simp_all
  moreover from this have "col_TR df ! 0 = None" by (simp add: nth_col_TR)
  ultimately have "take 14 (drop (i - 13) (col_TR df)) ! 0 = None" "0 < length (take 14 (drop (i - 13) (col_TR df)))"
    by (simp_all add: length_col_TR)
  then show "None \<in> set (take 14 (drop (i - 13) (col_TR df)))"
    by (metis nth_mem)
qed

lemma col_ATR_None_iff:
  assumes "i < length df"
  shows "col_ATR df ! i = None \<longleftrightarrow> i < 14"
proof (cases "i < 13")
  case True
  then show ?thesis using assms by (simp add: nth_col_ATR)
next
  case False
  then have "13 \<le> i" by simp
  have "col_ATR df ! i = None \<longleftrightarrow> those (take 14 (drop (i - 13) (col_TR df))) = None"
    using assms False by (simp add: nth_col_ATR split: option.splits)
  also have "\<dots> \<longleftrightarrow> i = 13" using window_has_None[OF assms \<open>13 \<le> i\<close>] by (simp add: those_None_iff)
  finally show ?thesis using False by auto
qed

section \<open>Rows, loops and totality\<close>

lemma length_add_columns: "length (add_columns df) = length df"
  by (simp add: add_columns_def length_col_TR length_col_ATR)

lemma nth_add_columns:
  "i < length df \<Longrightarrow> add_columns df ! i =
     \<lparr> timestamp = timestamp (df ! i), Open = Open (df ! i), High = High (df ! i),
       Low = Low (df ! i), Close = Close (df ! i), Volume = Volume (df ! i),
       Body = \<bar>Close (df ! i) - Open (df ! i)\<bar>,
       Range = High (df ! i) - Low (df ! i),
       BodyRatio = body_ratio \<bar>Close (df ! i) - Open (df ! i)\<bar> (High (df ! i) - Low (df ! i)),
       IsBullish = (Close (df ! i) > Open (df ! i)),
       TR = col_TR df ! i,
       ATR = col_ATR df ! i \<rparr>"
  by (simp add: add_columns_def length_col_TR length_col_ATR)

lemma iloc_in_range: "i < length xs \<Longrightarrow> iloc xs i = Inr (xs ! i)"
  by (simp add: iloc_def)

lemma iloc_Inr: "iloc xs i = Inr x \<Longrightarrow> i < length xs \<and> x = xs ! i"
  by (simp add: iloc_def split: if_splits)

lemma collect_Inr_set:
  "collect xs = Inr vs \<Longrightarrow> set vs = {a. Inr (Some a) \<in> set xs}"
proof (induction xs arbitrary: vs)
  case Nil
  then show ?case by simp
next
  case (Cons x xs)
  then show ?case
    by (auto split: sum.splits option.splits)
qed

lemma collect_total:
  "(\<And>x. x \<in> set xs \<Longrightarrow> \<exists>v. x = Inr v) \<Longrightarrow> \<exists>vs. collect xs = Inr vs"
proof (induction xs)
  case Nil
  then show ?case by simp
next
  case (Cons x xs)
  then obtain v where "x = Inr v" by auto
  moreover from Cons obtain vs where "collect xs = Inr vs" by auto
  ultimately show ?case by simp
qed

lemma collect_length:
  "collect xs = Inr vs \<Longrightarrow> length vs = length (filter (\<lambda>x. \<exists>a. x = Inr (Some a)) xs)"
proof (induction xs arbitrary: vs)
  case Nil
  then show ?case by simp
next
  case (Cons x xs)
  then show ?case
    by (auto split: sum.splits option.splits)
qed

lemma sim_loop_in_range:
  "(\<And>j. j \<in> set js \<Longrightarrow> j < length df) \<Longrightarrow>
   sim_loop df d entry sl rsk js s = Inr (foldl (\<lambda>s j. sim_step d entry sl rsk (df ! j) s) s js)"
  by (induction js arbitrary: s) (simp_all add: iloc_def)

lemma build_setup_total:
  assumes "i + 5 < length df" "c5 = Some r5" "c6 = Some r6"
  shows "\<exists>s. build_setup df i c1 c2 c3 c4 c5 c6 d entry sl rsk = Inr s"
proof -
  obtain w1 where w1: "classify_wick_profile (Open c1) (Close c1) (High c1) (Low c1) = Inr w1"
    using classify_wick_profile_total by blast
  obtain w2 where w2: "classify_wick_profile (Open c2) (Close c2) (High c2) (Low c2) = Inr w2"
    using classify_wick_profile_total by blast
  have sl: "sim_loop df d entry sl rsk [i + 3..<min (i + 23) (length df)] sim_init
        = Inr (foldl (\<lambda>s j. sim_step d entry sl rsk (df ! j) s) sim_init [i + 3..<min (i + 23) (length df)])"
    by (rule sim_loop_in_range) simp
  show ?thesis
    using assms w1 w2 sl
    by (cases w1; cases w2) (simp add: build_setup_def candle_result_def res_fields_def Let_def)
qed

lemma setup_at_total:
  assumes "i + 5 < length df"
  shows "\<exists>r. setup_at df thr mult i = Inr r"
proof (cases "gates thr mult (df ! i) (df ! (i + 1)) (df ! (i + 2))")
  case None
  then show ?thesis using assms by (simp add: setup_at_def iloc_def)
next
  case (Some g)
  obtain d entry sl rsk where g: "g = (d, entry, sl, rsk)" by (cases g) auto
  obtain s where "build_setup df i (df ! i) (df ! (i + 1)) (df ! (i + 2)) (df ! (i + 3))
       (Some (df ! (i + 4))) (Some (df ! (i + 5))) d entry sl rsk = Inr s"
    using build_setup_total[OF assms] by blast
  then show ?thesis using assms Some g by (simp add: setup_at_def iloc_def)
qed

lemma detect_setups_total: "\<exists>ss. detect_setups df thr mult = Inr ss"
proof (cases "length df < 20")
  case True
  then show ?thesis by (simp add: detect_setups_def)
next
  case False
  have "\<exists>vs. collect (map (setup_at (add_columns df) thr mult) [14..<length df - 6]) = Inr vs"
  proof (rule collect_total)
    fix x assume "x \<in> set (map (setup_at (add_columns df) thr mult) [14..<length df - 6])"
    then obtain i where "x = setup_at (add_columns df) thr mult i" "i < length df - 6" by auto
    then show "\<exists>v. x = Inr v"
      using setup_at_total[of i "add_columns df" thr mult] by (simp add: length_add_columns)
  qed
  then show ?thesis using False by (simp add: detect_setups_def)
qed

lemma zone_at_total: "i < length df \<Longrightarrow> \<exists>r. zone_at df zmin i = Inr r"
  by (simp add: zone_at_def iloc_def Let_def split: option.splits)

lemma detect_zones_total: "\<exists>zs. detect_zones df zmin = Inr zs"
  unfolding detect_zones_def
proof (rule collect_total)
  fix x assume "x \<in> set (map (zone_at (add_columns df) zmin) [20..<length df])"
  then obtain i where "x = zone_at (add_columns df) zmin i" "i < length df" by auto
  then show "\<exists>v. x = Inr v"
    using zone_at_total[of i "add_columns df" zmin] by (simp add: length_add_columns)
qed

text \<open>
  C10.  On a series shorter than 20 bars \<open>detect_setups\<close> and \<open>detect_zones\<close> both return
  the empty collection, as a normal result (\<open>Inr\<close>) and not as an exception (\<open>Inl\<close>).
  (By \<open>detect_setups_total\<close> and \<open>detect_zones_total\<close> neither function raises on any
  series, so an empty result is never a disguised failure.)
\<close>

theorem C10_short_series_empty:
  "length df < 20 \<Longrightarrow> detect_setups df thr mult = Inr [] \<and> detect_zones df zmin = Inr []"
  by (simp add: detect_setups_def detect_zones_def)

section \<open>The outcome loop\<close>

lemma sim_step_first_hit:
  "first_hit (sim_step d entry sl rsk c s) =
     (if first_hit s \<noteq> None then first_hit s
      else if touches_sl d sl c \<and> \<not> hit_sl s then Some SL
      else if touches_1r d entry rsk c \<and> \<not> hit_1r s then Some R1
      else None)"
  by (simp add: sim_step_def Let_def)

lemma sim_step_hit_sl:
  "hit_sl (sim_step d entry sl rsk c s) = (hit_sl s \<or> touches_sl d sl c)"
  by (auto simp add: sim_step_def Let_def)

lemma sim_step_hit_1r:
  "hit_1r (sim_step d entry sl rsk c s) = (hit_1r s \<or> touches_1r d entry rsk c)"
  by (auto simp add: sim_step_def Let_def)

lemma foldl_first_hit_kept:
  "first_hit s \<noteq> None \<Longrightarrow>
   first_hit (foldl (\<lambda>s c. sim_step d entry sl rsk c s) s cs) = first_hit s"
  by (induction cs arbitrary: s) (simp_all add: sim_step_first_hit)

lemma foldl_first_hit:
  assumes "first_hit s = None" "\<not> hit_sl s" "\<not> hit_1r s"
  shows "first_hit (foldl (\<lambda>s c. sim_step d entry sl rsk c s) s cs) =
     (case find (\<lambda>c. touches_sl d sl c \<or> touches_1r d entry rsk c) cs of
        None \<Rightarrow> None
      | Some c \<Rightarrow> if touches_sl d sl c then Some SL else Some R1)"
  using assms
proof (induction cs arbitrary: s)
  case Nil
  then show ?case by simp
next
  case (Cons c cs)
  let ?s' = "sim_step d entry sl rsk c s"
  show ?case
  proof (cases "touches_sl d sl c \<or> touches_1r d entry rsk c")
    case True
    then have fh: "first_hit ?s' = (if touches_sl d sl c then Some SL else Some R1)"
      using Cons.prems by (auto simp add: sim_step_first_hit)
    then have "first_hit ?s' \<noteq> None" by simp
    then have "first_hit (foldl (\<lambda>s c. sim_step d entry sl rsk c s) ?s' cs) = first_hit ?s'"
      by (rule foldl_first_hit_kept)
    then show ?thesis using True fh by simp
  next
    case False
    then have "first_hit ?s' = None" "\<not> hit_sl ?s'" "\<not> hit_1r ?s'"
      using Cons.prems by (simp_all add: sim_step_first_hit sim_step_hit_sl sim_step_hit_1r)
    then have "first_hit (foldl (\<lambda>s c. sim_step d entry sl rsk c s) ?s' cs) =
       (case find (\<lambda>c. touches_sl d sl c \<or> touches_1r d entry rsk c) cs of
          None \<Rightarrow> None
        | Some c \<Rightarrow> if touches_sl d sl c then Some SL else Some R1)"
      by (rule Cons.IH)
    then show ?thesis using False by simp
  qed
qed

lemma foldl_R1_hit:
  "(first_hit s = Some R1 \<longrightarrow> hit_1r s) \<Longrightarrow>
   first_hit (foldl (\<lambda>s c. sim_step d entry sl rsk c s) s cs) = Some R1 \<Longrightarrow>
   hit_1r (foldl (\<lambda>s c. sim_step d entry sl rsk c s) s cs)"
proof (induction cs arbitrary: s)
  case Nil
  then show ?case by simp
next
  case (Cons c cs)
  have "first_hit (sim_step d entry sl rsk c s) = Some R1 \<longrightarrow> hit_1r (sim_step d entry sl rsk c s)"
    using Cons.prems(1) by (auto simp add: sim_step_first_hit sim_step_hit_1r split: if_splits)
  then show ?case using Cons.IH Cons.prems(2) by simp
qed

text \<open>The lookahead window of anchor \<open>i\<close>: the rows at positions \<open>i+3\<close> up to \<open>min(i+23, len)\<close>.\<close>

lemma sim_loop_window:
  "sim_loop df d entry sl rsk [i + 3..<min (i + 23) (length df)] sim_init =
     Inr (foldl (\<lambda>s c. sim_step d entry sl rsk c s) sim_init
            (map (nth df) [i + 3..<min (i + 23) (length df)]))"
proof -
  have "sim_loop df d entry sl rsk [i + 3..<min (i + 23) (length df)] sim_init
        = Inr (foldl (\<lambda>s j. sim_step d entry sl rsk (df ! j) s) sim_init [i + 3..<min (i + 23) (length df)])"
    by (rule sim_loop_in_range) simp
  then show ?thesis by (simp add: foldl_map)
qed

lemma build_setup_InrD:
  assumes "build_setup df i c1 c2 c3 c4 c5 c6 d entry sl rsk = Inr s"
  shows "direction s = d" "entry_price s = entry" "stop_loss s = sl" "risk s = rsk"
    "outcome s = foldl (\<lambda>s c. sim_step d entry sl rsk c s) sim_init
                   (map (nth df) [i + 3..<min (i + 23) (length df)])"
    "win_1r s = win_label (outcome s) (candle_result (Some c4) entry rsk d)"
    "candle_result (Some c4) entry rsk d = Some (c4_res s)"
    "datetime s = timestamp c1" "c1_atr s = ATR c1"
    "c2_high s = High c2" "c2_low s = Low c2" "c3_close s = Close c3"
    "c1_high s = High c1" "c1_low s = Low c1"
  using assms
  by (auto simp add: build_setup_def sim_loop_window res_fields_def Let_def
           split: sum.splits prod.splits option.splits)

section \<open>The loop body of detect_setups\<close>

lemma setup_at_SomeD:
  assumes "setup_at df thr mult i = Inr (Some s)"
  shows "i + 3 < length df"
    and "gates thr mult (df ! i) (df ! (i + 1)) (df ! (i + 2))
           = Some (direction s, entry_price s, stop_loss s, risk s)"
    and "build_setup df i (df ! i) (df ! (i + 1)) (df ! (i + 2)) (df ! (i + 3))
           (if i + 4 < length df then Some (df ! (i + 4)) else None)
           (if i + 5 < length df then Some (df ! (i + 5)) else None)
           (direction s) (entry_price s) (stop_loss s) (risk s) = Inr s"
proof -
  from assms obtain c1 c2 c3 c4 where
    il: "iloc df i = Inr c1" "iloc df (i + 1) = Inr c2" "iloc df (i + 2) = Inr c3"
        "iloc df (i + 3) = Inr c4"
    by (auto simp add: setup_at_def split: sum.splits)
  then have rng: "i + 3 < length df" and cs: "c1 = df ! i" "c2 = df ! (i + 1)" "c3 = df ! (i + 2)"
      "c4 = df ! (i + 3)"
    by (auto dest: iloc_Inr)
  show "i + 3 < length df" by (rule rng)
  from assms il obtain d entry sl rsk where
    g: "gates thr mult c1 c2 c3 = Some (d, entry, sl, rsk)"
    and b: "build_setup df i c1 c2 c3 c4
           (if i + 4 < length df then Some (df ! (i + 4)) else None)
           (if i + 5 < length df then Some (df ! (i + 5)) else None) d entry sl rsk = Inr s"
    by (auto simp add: setup_at_def Let_def split: option.splits sum.splits prod.splits)
  from build_setup_InrD(1-4)[OF b] have e: "d = direction s" "entry = entry_price s"
      "sl = stop_loss s" "rsk = risk s"
    by simp_all
  show "gates thr mult (df ! i) (df ! (i + 1)) (df ! (i + 2))
           = Some (direction s, entry_price s, stop_loss s, risk s)"
    using g cs e by simp
  show "build_setup df i (df ! i) (df ! (i + 1)) (df ! (i + 2)) (df ! (i + 3))
           (if i + 4 < length df then Some (df ! (i + 4)) else None)
           (if i + 5 < length df then Some (df ! (i + 5)) else None)
           (direction s) (entry_price s) (stop_loss s) (risk s) = Inr s"
    using b cs e by simp
qed

lemma setup_at_gates_None:
  "i + 3 < length df \<Longrightarrow> gates thr mult (df ! i) (df ! (i + 1)) (df ! (i + 2)) = None \<Longrightarrow>
   setup_at df thr mult i = Inr None"
  by (simp add: setup_at_def iloc_def)

lemma gates_SomeD:
  assumes "gates thr mult c1 c2 c3 = Some (d, entry, sl, rsk)"
  shows "\<exists>a. ATR c1 = Some a \<and> a \<noteq> 0 \<and> \<not> nan_lt (BodyRatio c1) thr \<and> a * mult \<le> Body c1"
    and "High c2 \<le> High c1 \<and> Low c1 \<le> Low c2"
    and "entry = Close c3" and "0 < rsk"
    and "d = LONG \<Longrightarrow> High c2 < Close c3 \<and> sl = Low c2 \<and> rsk = entry - sl"
    and "d = SHORT \<Longrightarrow> Close c3 < Low c2 \<and> sl = High c2 \<and> rsk = sl - entry"
  using assms
  by (auto simp add: gates_def Let_def split: option.splits if_splits)

lemma gates_no_breakout:
  "\<not> Close c3 > High c2 \<Longrightarrow> \<not> Close c3 < Low c2 \<Longrightarrow> gates thr mult c1 c2 c3 = None"
  by (simp add: gates_def split: option.splits)

lemma gates_no_atr:
  "ATR c1 = None \<or> ATR c1 = Some 0 \<Longrightarrow> gates thr mult c1 c2 c3 = None"
  by (auto simp add: gates_def split: option.splits)

lemma collect_map_mem:
  assumes "collect (map f xs) = Inr vs"
  shows "a \<in> set vs \<longleftrightarrow> (\<exists>i\<in>set xs. f i = Inr (Some a))"
proof -
  have "a \<in> set vs \<longleftrightarrow> Inr (Some a) \<in> f ` set xs"
    using collect_Inr_set[OF assms] by simp
  also have "\<dots> \<longleftrightarrow> (\<exists>i\<in>set xs. f i = Inr (Some a))"
    by (metis (no_types, lifting) image_iff)
  finally show ?thesis .
qed

lemma detect_setups_members:
  assumes "detect_setups df thr mult = Inr ss"
  shows "s \<in> set ss \<longleftrightarrow> (\<exists>i. 14 \<le> i \<and> i < length df - 6 \<and> 20 \<le> length df
                    \<and> setup_at (add_columns df) thr mult i = Inr (Some s))"
proof (cases "length df < 20")
  case True
  then show ?thesis using assms by (auto simp add: detect_setups_def)
next
  case False
  then have "collect (map (setup_at (add_columns df) thr mult) [14..<length df - 6]) = Inr ss"
    using assms by (simp add: detect_setups_def)
  from collect_map_mem[OF this, of s] show ?thesis using False by auto
qed

lemma detect_zones_members:
  assumes "detect_zones df zmin = Inr zs"
  shows "z \<in> set zs \<longleftrightarrow> (\<exists>i. 20 \<le> i \<and> i < length df \<and> zone_at (add_columns df) zmin i = Inr (Some z))"
  using collect_map_mem[OF assms[unfolded detect_zones_def], of z] by auto

section \<open>First hit\<close>

lemma setup_at_Some_ex:
  assumes "i + 5 < length df"
    and "gates thr mult (df ! i) (df ! (i + 1)) (df ! (i + 2)) = Some (d, entry, sl, rsk)"
  shows "\<exists>s. setup_at df thr mult i = Inr (Some s) \<and> direction s = d \<and> entry_price s = entry
             \<and> stop_loss s = sl \<and> risk s = rsk"
proof -
  obtain r where r: "setup_at df thr mult i = Inr r"
    using setup_at_total[OF assms(1)] by blast
  have "r \<noteq> None"
    using r assms by (auto simp add: setup_at_def iloc_def Let_def split: sum.splits)
  then obtain s where s: "r = Some s" by auto
  with r have h: "setup_at df thr mult i = Inr (Some s)" by simp
  from setup_at_SomeD(2)[OF h] assms(2) show ?thesis using h by simp
qed

lemma first_hit_of_setup:
  assumes "setup_at df thr mult i = Inr (Some s)"
  shows "first_hit (outcome s) =
     (case find (\<lambda>c. touches_sl (direction s) (stop_loss s) c
                       \<or> touches_1r (direction s) (entry_price s) (risk s) c)
                (map (nth df) [i + 3..<min (i + 23) (length df)]) of
        None \<Rightarrow> None
      | Some c \<Rightarrow> if touches_sl (direction s) (stop_loss s) c then Some SL else Some R1)"
proof -
  have o: "outcome s = foldl (\<lambda>st c. sim_step (direction s) (entry_price s) (stop_loss s) (risk s) c st)
              sim_init (map (nth df) [i + 3..<min (i + 23) (length df)])"
    by (rule build_setup_InrD(5)[OF setup_at_SomeD(3)[OF assms]])
  have "first_hit sim_init = None" "\<not> hit_sl sim_init" "\<not> hit_1r sim_init"
    by (simp_all add: sim_init_def)
  from foldl_first_hit[OF this] show ?thesis unfolding o .
qed

text \<open>
  C2.  For an accepted anchor \<open>i\<close> the first-hit label is decided by the earliest candle of
  the lookahead window (positions \<open>i+3\<close> up to \<open>min(i+23, len)\<close>, in order) on which the
  stop-loss or the 1R level is touched: \<open>None\<close> if there is no such candle, \<open>SL\<close> if that
  candle touches the stop-loss (whether or not it also touches 1R), \<open>1R\<close> otherwise.
\<close>

theorem C2_first_hit_earliest_candle_sl_priority:
  assumes "setup_at df thr mult i = Inr (Some s)"
  shows "first_hit (outcome s) =
     (case find (\<lambda>c. touches_sl (direction s) (stop_loss s) c
                       \<or> touches_1r (direction s) (entry_price s) (risk s) c)
                (map (nth df) [i + 3..<min (i + 23) (length df)]) of
        None \<Rightarrow> None
      | Some c \<Rightarrow> if touches_sl (direction s) (stop_loss s) c then Some SL else Some R1)"
  using assms by (rule first_hit_of_setup)

lemma ex_tie_length: "length (add_columns ex_tie) = 21"
  by (simp add: length_add_columns ex_tie_def quiet_bars_def flat_bars_def)

lemma ex_tie_gates:
  "gates (13 / 20) (13 / 10) (add_columns ex_tie ! 14) (add_columns ex_tie ! (14 + 1))
     (add_columns ex_tie ! (14 + 2)) = Some (LONG, 110, 107, 3)"
  by code_simp

lemma ex_tie_window:
  "find (\<lambda>c. touches_sl LONG 107 c \<or> touches_1r LONG 110 3 c)
        (map (nth (add_columns ex_tie)) [17..<21]) = Some (add_columns ex_tie ! 17)"
  by code_simp

lemma ex_tie_touches:
  "touches_sl LONG 107 (add_columns ex_tie ! 17) \<and> touches_1r LONG 110 3 (add_columns ex_tie ! 17)"
  by code_simp

theorem C2_witness:
  "\<exists>s. setup_at (add_columns ex_tie) (13 / 20) (13 / 10) 14 = Inr (Some s)
       \<and> touches_sl (direction s) (stop_loss s) (add_columns ex_tie ! 17)
       \<and> touches_1r (direction s) (entry_price s) (risk s) (add_columns ex_tie ! 17)
       \<and> first_hit (outcome s) = Some SL"
proof -
  obtain s where s: "setup_at (add_columns ex_tie) (13 / 20) (13 / 10) 14 = Inr (Some s)"
      "direction s = LONG" "entry_price s = 110" "stop_loss s = 107" "risk s = 3"
    using setup_at_Some_ex[OF _ ex_tie_gates] by (auto simp add: ex_tie_length)
  have "first_hit (outcome s) = Some SL"
    using C2_first_hit_earliest_candle_sl_priority[OF s(1)] s(2-5) ex_tie_window ex_tie_touches
    by (simp add: ex_tie_length)
  then show ?thesis using s ex_tie_touches by auto
qed

end
